theory Spec2Isabelle
  imports Main
begin

section \<open>File intake: the multer disk storage\<close>

text \<open>
  The upload directories of the server. \<open>uploadBase\<close> is \<open>uploads\<close>, \<open>replayDir\<close> is
  \<open>uploads/replays\<close> and \<open>telemetryDir\<close> is \<open>uploads/telemetry\<close>.
\<close>

datatype upload_dir = uploadBase | replayDir | telemetryDir

text \<open>
  \<open>destination\<close> of the disk storage: the directory is chosen by the field name of the
  uploaded part.
\<close>

definition destination :: "string \<Rightarrow> upload_dir" where
  "destination fieldname =
     (if fieldname = ''replay'' then replayDir
      else if fieldname = ''telemetry'' then telemetryDir
      else uploadBase)"

text \<open>
  The character class \<open>[a-zA-Z0-9_.-]\<close> of the regular expression, by code unit.
\<close>

definition in_class :: "char \<Rightarrow> bool" where
  "in_class c =
     (let n = (of_char c :: nat) in
        (97 \<le> n \<and> n \<le> 122) \<or> (65 \<le> n \<and> n \<le> 90) \<or> (48 \<le> n \<and> n \<le> 57)
        \<or> c = CHR ''_'' \<or> c = CHR ''.'' \<or> c = CHR ''-'')"

text \<open>
  \<open>originalname.replace(/[^a-zA-Z0-9_.-]/g, '_')\<close>: every code unit outside the class
  becomes an underscore, the others stay; the length is kept.
\<close>

definition replace_unsafe :: "string \<Rightarrow> string" where
  "replace_unsafe originalname = map (\<lambda>c. if in_class c then c else CHR ''_'') originalname"

text \<open>
  The decimal rendering of a non-negative integer, as the template literal renders
  \<open>Date.now()\<close> (milliseconds since the epoch).
\<close>

definition digit_char :: "nat \<Rightarrow> char" where
  "digit_char d = ''0123456789'' ! d"

fun decimal :: "nat \<Rightarrow> string" where
  "decimal n = (if n < 10 then [digit_char n] else decimal (n div 10) @ [digit_char (n mod 10)])"

declare decimal.simps [simp del]

text \<open>
  \<open>filename\<close> of the disk storage: \<open>`${Date.now()}-${originalname.replace(...)}`\<close>.
  The first argument is the value \<open>Date.now()\<close> returns when the file is taken in.
\<close>

definition filename :: "nat \<Rightarrow> string \<Rightarrow> string" where
  "filename now originalname = decimal now @ ''-'' @ replace_unsafe originalname"

section \<open>Values of the platform\<close>

text \<open>
  A field of a parsed form body is a string or is absent (\<open>undefined\<close>): \<open>None\<close> is the
  absent field. \<open>truthy\<close> is JavaScript's truthiness on such a value: absent and the empty
  string are falsy.
\<close>

definition truthy :: "string option \<Rightarrow> bool" where
  "truthy v = (case v of None \<Rightarrow> False | Some s \<Rightarrow> s \<noteq> [])"

text \<open>\<open>v || null\<close> on a form field.\<close>

definition or_null :: "string option \<Rightarrow> string option" where
  "or_null v = (if truthy v then v else None)"

text \<open>The values bound to the parameters of an SQL statement and kept in session objects.\<close>

datatype js_value = JUndefined | JNum nat | JStr string

text \<open>
  An object literal is the list of its properties in the order written; reading a
  property that is not there gives \<open>undefined\<close>.
\<close>

type_synonym js_object = "(string \<times> js_value) list"

definition property :: "js_object \<Rightarrow> string \<Rightarrow> js_value" where
  "property obj k = (case map_of obj k of None \<Rightarrow> JUndefined | Some v \<Rightarrow> v)"

text \<open>
  What the server does not define itself: the environment variable \<open>ADMIN_CODE\<close>, the two
  functions of the bcrypt library (\<open>bcrypt_compare\<close> answers \<open>None\<close> when the library
  rejects its arguments), and the conversion SQLite applies to a text parameter that is
  compared with an INTEGER column.
\<close>

record env =
  ADMIN_CODE :: "string option"
  bcrypt_hash :: "string \<Rightarrow> string"
  bcrypt_compare :: "string option \<Rightarrow> string \<Rightarrow> bool option"
  sql_integer :: "string \<Rightarrow> nat option"

text \<open>
  What one request meets: the value of \<open>CURRENT_TIMESTAMP\<close>, and for the k-th statement
  the handler sends to the database whether the driver reports an error that is not a
  constraint violation (database locked, disk full, file unreadable).
\<close>

record io =
  clock :: nat
  db_fault :: "nat \<Rightarrow> bool"

section \<open>The persistent store (db.js)\<close>

record user_row =
  u_id :: nat
  u_name :: string
  u_email :: string
  u_password_hash :: string
  u_role :: string
  u_created_at :: nat

text \<open>
  The column \<open>telemetry_files\<close> is TEXT holding \<open>JSON.stringify\<close> of an array of file
  names, read back with \<open>JSON.parse\<close>. The model keeps the array itself: \<open>None\<close> is
  NULL, \<open>Some fs\<close> is the serialised array \<open>fs\<close>.
\<close>

record submission_row =
  s_id :: nat
  s_user_id :: nat
  s_race_date :: string
  s_race_time :: string
  s_series :: string
  s_is_protest :: nat
  s_protest_text :: "string option"
  s_replay_file :: "string option"
  s_telemetry_files :: "string list option"
  s_created_at :: nat

text \<open>
  Effects on the disk and on the tables, in the order the server performs them. The journal
  is not read by the server; it records the order of the effects.
\<close>

datatype sql_statement = INSERT_users | INSERT_submissions | UPDATE_submissions | UPDATE_users

datatype effect = Wrote upload_dir string | Unlinked upload_dir string | Ran sql_statement

text \<open>
  The two tables with their AUTOINCREMENT counters, and the files below the upload
  directories. A file is named by its directory and its name in it, which is what
  \<open>path.join(dir, name)\<close> gives for a name without separators.
\<close>

record state =
  users :: "user_row list"
  submissions :: "submission_row list"
  user_seq :: nat
  submission_seq :: nat
  files :: "(upload_dir \<times> string) set"
  effects :: "effect list"

datatype db_error = SQLITE_CONSTRAINT | SQLITE_FAILURE

text \<open>
  \<open>run\<close> and \<open>get\<close> of db.js: the promise is rejected with the driver's error, whatever
  it is, and resolved otherwise.
\<close>

definition run :: "bool \<Rightarrow> (state \<Rightarrow> db_error + state) \<Rightarrow> state \<Rightarrow> db_error + state" where
  "run fault statement st = (if fault then Inl SQLITE_FAILURE else statement st)"

definition get :: "bool \<Rightarrow> (state \<Rightarrow> 'r option) \<Rightarrow> state \<Rightarrow> db_error + 'r option" where
  "get fault query st = (if fault then Inl SQLITE_FAILURE else Inr (query st))"

text \<open>
  \<open>column = ?\<close> for an INTEGER column: a number is compared as it is, a text is converted
  first, and \<open>undefined\<close> is bound as NULL, which equals nothing.
\<close>

definition sql_int_eq :: "env \<Rightarrow> nat \<Rightarrow> js_value \<Rightarrow> bool" where
  "sql_int_eq E n v =
     (case v of JUndefined \<Rightarrow> False | JNum m \<Rightarrow> n = m | JStr s \<Rightarrow> sql_integer E s = Some n)"

text \<open>
  \<open>INSERT INTO users (name, email, password_hash, role) VALUES (?, ?, ?, ?)\<close>; the column
  \<open>email\<close> is UNIQUE.
\<close>

definition insert_user :: "nat \<Rightarrow> string \<Rightarrow> string \<Rightarrow> string \<Rightarrow> string \<Rightarrow> state \<Rightarrow> db_error + state" where
  "insert_user now name email passwordHash role st =
     (if email \<in> set (map u_email (users st)) then Inl SQLITE_CONSTRAINT
      else Inr (st\<lparr>users := users st @
                     [\<lparr>u_id = Suc (user_seq st), u_name = name, u_email = email,
                       u_password_hash = passwordHash, u_role = role, u_created_at = now\<rparr>],
                   user_seq := Suc (user_seq st),
                   effects := effects st @ [Ran INSERT_users]\<rparr>))"

text \<open>\<open>SELECT * FROM users WHERE email = ?\<close>, first row.\<close>

definition select_user_by_email :: "string option \<Rightarrow> state \<Rightarrow> user_row option" where
  "select_user_by_email email st = find (\<lambda>u. email = Some (u_email u)) (users st)"


text \<open>\<open>SELECT * FROM submissions WHERE id = ? AND user_id = ?\<close>, first row.\<close>

definition owned_by :: "env \<Rightarrow> js_value \<Rightarrow> js_value \<Rightarrow> submission_row \<Rightarrow> bool" where
  "owned_by E submissionId userId r = (sql_int_eq E (s_id r) submissionId \<and> sql_int_eq E (s_user_id r) userId)"

definition select_submission :: "env \<Rightarrow> js_value \<Rightarrow> js_value \<Rightarrow> state \<Rightarrow> submission_row option" where
  "select_submission E submissionId userId st = find (owned_by E submissionId userId) (submissions st)"


text \<open>
  \<open>UPDATE submissions SET race_date = ?, race_time = ?, series = ?, is_protest = ?,
  protest_text = ?, replay_file = ?, telemetry_files = ? WHERE id = ? AND user_id = ?\<close>.
\<close>

definition update_submission ::
  "env \<Rightarrow> string \<Rightarrow> string \<Rightarrow> string \<Rightarrow> nat \<Rightarrow> string option \<Rightarrow> string option \<Rightarrow> string list
     \<Rightarrow> js_value \<Rightarrow> js_value \<Rightarrow> state \<Rightarrow> db_error + state" where
  "update_submission E race_date race_time series is_protest protest_text replayPath telemetryFiles
       submissionId userId st =
     Inr (st\<lparr>submissions :=
                map (\<lambda>r. if owned_by E submissionId userId r
                         then r\<lparr>s_race_date := race_date, s_race_time := race_time,
                                s_series := series, s_is_protest := is_protest,
                                s_protest_text := protest_text, s_replay_file := replayPath,
                                s_telemetry_files := Some telemetryFiles\<rparr>
                         else r)
                    (submissions st),
              effects := effects st @ [Ran UPDATE_submissions]\<rparr>)"

section \<open>Requests and responses\<close>

text \<open>
  \<open>req.body\<close>: the fields of the forms of the server. \<open>text_of\<close> reads a field that has
  been found truthy.
\<close>

record body =
  b_name :: "string option"
  b_email :: "string option"
  b_password :: "string option"
  b_admin_code :: "string option"
  b_race_date :: "string option"
  b_race_time :: "string option"
  b_series :: "string option"
  b_is_protest :: "string option"
  b_protest_text :: "string option"

definition text_of :: "string option \<Rightarrow> string" where
  "text_of v = (case v of None \<Rightarrow> [] | Some s \<Rightarrow> s)"

text \<open>
  A file of a multipart request as the storage receives it (the \<open>file\<close> argument of
  \<open>destination\<close> and \<open>filename\<close>): the field it was sent in, the name the client gave
  it, and the value of \<open>Date.now()\<close> when the storage names it. A part of the form that
  carries no file name never becomes such a file.
\<close>

record part =
  p_fieldname :: string
  p_originalname :: string
  p_now :: nat

text \<open>\<open>req.files\<close>: for each of the two fields the \<open>filename\<close> of its stored files, in order.\<close>

record req_files =
  f_replay :: "string list"
  f_telemetry :: "string list"

datatype failure = Db db_error | Bcrypt | Multer

record locals =
  l_user :: "js_object option"
  l_error :: "string option"
  l_submission :: "submission_row option"

text \<open>
  What a request ends with: \<open>res.redirect\<close>, \<open>res.render\<close> with a view and its locals,
  \<open>res.status(n).send(text)\<close>, or an error that no handler of the server catches.
\<close>

datatype response = Redirect string | Render string locals | Send nat string | Rejected failure

section \<open>File intake: upload.fields\<close>

definition stored_names :: "string \<Rightarrow> part list \<Rightarrow> string list" where
  "stored_names field parts =
     map (\<lambda>p. filename (p_now p) (p_originalname p)) (filter (\<lambda>p. p_fieldname p = field) parts)"

definition store_part :: "state \<Rightarrow> part \<Rightarrow> state" where
  "store_part st p =
     (let d = destination (p_fieldname p); f = filename (p_now p) (p_originalname p)
      in st\<lparr>files := insert (d, f) (files st), effects := effects st @ [Wrote d f]\<rparr>)"

text \<open>
  \<open>upload.fields([{name: 'replay', maxCount: 1}, {name: 'telemetry', maxCount: 5}])\<close>: the
  parts are stored in the order received. A part in another field, or one more than
  \<open>maxCount\<close> in a field, fails the request before the handler runs (\<open>None\<close>). The
  library then unlinks the paths the request had written; what is on the disk after a
  refused request is not modelled (the routes return the state as it was), and nothing
  below is stated about the files after a refused intake.
\<close>

definition upload_fields :: "part list \<Rightarrow> state \<Rightarrow> (req_files \<times> state) option" where
  "upload_fields parts st =
     (if list_all (\<lambda>p. p_fieldname p = ''replay'' \<or> p_fieldname p = ''telemetry'') parts
         \<and> length (filter (\<lambda>p. p_fieldname p = ''replay'') parts) \<le> 1
         \<and> length (filter (\<lambda>p. p_fieldname p = ''telemetry'') parts) \<le> 5
      then Some (\<lparr>f_replay = stored_names ''replay'' parts,
                  f_telemetry = stored_names ''telemetry'' parts\<rparr>,
                 foldl store_part st parts)
      else None)"

text \<open>\<open>if (fs.existsSync(p)) fs.unlinkSync(p)\<close> for the file \<open>name\<close> of directory \<open>d\<close>.\<close>

definition unlink_if_exists :: "upload_dir \<Rightarrow> state \<Rightarrow> string \<Rightarrow> state" where
  "unlink_if_exists d st name =
     (if (d, name) \<in> files st
      then st\<lparr>files := files st - {(d, name)}, effects := effects st @ [Unlinked d name]\<rparr>
      else st)"

section \<open>The routes\<close>

text \<open>
  Each route is its chain of middleware and its handler: \<open>requireAuth\<close> and
  \<open>requireAdmin\<close> are the tests on \<open>req.session.user\<close> at the head of a route, the file
  intake is \<open>upload_fields\<close>. The CSRF check, the parsing of the body and the rendering of
  a view belong to the platform: a request is one that has passed the CSRF check, with its
  body parsed, and a rendered response is the name of the view with its locals.
\<close>

definition only_error :: "string \<Rightarrow> locals" where
  "only_error msg = \<lparr>l_user = None, l_error = Some msg, l_submission = None\<rparr>"

text \<open>\<open>process.env.ADMIN_CODE || 'admin123'\<close>.\<close>

definition admin_secret :: "env \<Rightarrow> string" where
  "admin_secret E = (if truthy (ADMIN_CODE E) then text_of (ADMIN_CODE E) else ''admin123'')"

text \<open>\<open>POST /register\<close>.\<close>

definition post_register :: "env \<Rightarrow> io \<Rightarrow> body \<Rightarrow> state \<Rightarrow> response \<times> state" where
  "post_register E io b st =
     (if \<not> truthy (b_name b) \<or> \<not> truthy (b_email b) \<or> \<not> truthy (b_password b)
      then (Render ''register'' (only_error ''All fields are required.''), st)
      else
        let passwordHash = bcrypt_hash E (text_of (b_password b));
            role = (if truthy (b_admin_code b) \<and> b_admin_code b = Some (admin_secret E)
                    then ''admin'' else ''driver'')
        in case run (db_fault io 0)
                  (insert_user (clock io) (text_of (b_name b)) (text_of (b_email b)) passwordHash role)
                  st of
             Inl e \<Rightarrow> (Render ''register'' (only_error ''Email already in use.''), st)
           | Inr st' \<Rightarrow> (Redirect ''/login'', st'))"

text \<open>
  \<open>POST /login\<close>. The second component is \<open>req.session.user\<close> after the request.
\<close>

definition session_of :: "user_row \<Rightarrow> js_object" where
  "session_of user =
     [(''id'', JNum (u_id user)), (''name'', JStr (u_name user)),
      (''role'', JStr (u_role user)), (''email'', JStr (u_email user))]"

definition post_login ::
  "env \<Rightarrow> io \<Rightarrow> body \<Rightarrow> js_object option \<Rightarrow> state \<Rightarrow> response \<times> js_object option" where
  "post_login E io b sess st =
     (case get (db_fault io 0) (select_user_by_email (b_email b)) st of
        Inl e \<Rightarrow> (Rejected (Db e), sess)
      | Inr None \<Rightarrow> (Render ''login'' (only_error ''Invalid credentials.''), sess)
      | Inr (Some user) \<Rightarrow>
          (case bcrypt_compare E (b_password b) (u_password_hash user) of
             None \<Rightarrow> (Rejected Bcrypt, sess)
           | Some ok \<Rightarrow>
               if \<not> ok then (Render ''login'' (only_error ''Invalid credentials.''), sess)
               else (Redirect ''/dashboard'', Some (session_of user))))"




text \<open>
  The file replacement of \<open>POST /edit/:id\<close>: the replay reference and the telemetry
  references to persist, and the state after the old files are unlinked.
\<close>

definition replace_replay ::
  "req_files \<Rightarrow> string option \<Rightarrow> state \<Rightarrow> string option \<times> state" where
  "replace_replay fls replayPath st =
     (case f_replay fls of
        [] \<Rightarrow> (replayPath, st)
      | f # _ \<Rightarrow>
          (Some f,
           if truthy replayPath then unlink_if_exists replayDir st (text_of replayPath) else st))"

definition replace_telemetry ::
  "req_files \<Rightarrow> string list \<Rightarrow> state \<Rightarrow> string list \<times> state" where
  "replace_telemetry fls telemetryFiles st =
     (if f_telemetry fls \<noteq> []
      then (f_telemetry fls, foldl (unlink_if_exists telemetryDir) st telemetryFiles)
      else (telemetryFiles, st))"

text \<open>\<open>JSON.parse(existingSubmission.telemetry_files || '[]')\<close>.\<close>

definition telemetry_of :: "submission_row \<Rightarrow> string list" where
  "telemetry_of r = (case s_telemetry_files r of None \<Rightarrow> [] | Some fs \<Rightarrow> fs)"

text \<open>The handler of \<open>POST /edit/:id\<close>, after \<open>requireAuth\<close> and the file intake.\<close>

definition edit_handler ::
  "env \<Rightarrow> io \<Rightarrow> string \<Rightarrow> body \<Rightarrow> req_files \<Rightarrow> js_object \<Rightarrow> state \<Rightarrow> response \<times> state" where
  "edit_handler E io submissionId b fls user st =
     (case get (db_fault io 0) (select_submission E (JStr submissionId) (property user ''id'')) st of
        Inl e \<Rightarrow> (Rejected (Db e), st)
      | Inr None \<Rightarrow>
          (Send 404 ''Submission not found or you do not have permission to edit it.'', st)
      | Inr (Some existingSubmission) \<Rightarrow>
          if \<not> truthy (b_race_date b) \<or> \<not> truthy (b_race_time b) \<or> \<not> truthy (b_series b)
          then (Render ''submit''
                  \<lparr>l_user = Some user, l_error = Some ''Please fill required fields.'',
                   l_submission = Some existingSubmission\<rparr>, st)
          else
            let (replayPath, st1) = replace_replay fls (s_replay_file existingSubmission) st;
                (telemetryFiles, st2) = replace_telemetry fls (telemetry_of existingSubmission) st1
            in case run (db_fault io 1)
                      (update_submission E (text_of (b_race_date b)) (text_of (b_race_time b))
                         (text_of (b_series b)) (if truthy (b_is_protest b) then 1 else 0)
                         (or_null (b_protest_text b)) replayPath telemetryFiles
                         (JStr submissionId) (property user ''id''))
                      st2 of
                 Inl e \<Rightarrow> (Rejected (Db e), st2)
               | Inr st' \<Rightarrow> (Redirect ''/dashboard'', st'))"

definition post_edit ::
  "env \<Rightarrow> io \<Rightarrow> string \<Rightarrow> body \<Rightarrow> part list \<Rightarrow> js_object option \<Rightarrow> state \<Rightarrow> response \<times> state" where
  "post_edit E io submissionId b parts sess st =
     (case sess of
        None \<Rightarrow> (Redirect ''/login'', st)
      | Some user \<Rightarrow>
          (case upload_fields parts st of
             None \<Rightarrow> (Rejected Multer, st)
           | Some (fls, st1) \<Rightarrow> edit_handler E io submissionId b fls user st1))"


section \<open>The server over a sequence of requests\<close>





section \<open>A concrete server, for the witnesses\<close>

definition demo_env :: env where
  "demo_env =
     \<lparr>ADMIN_CODE = Some ''s3cret'',
      bcrypt_hash = (\<lambda>p. ''$2b$10$'' @ p),
      bcrypt_compare = (\<lambda>p h. case p of None \<Rightarrow> None | Some s \<Rightarrow> Some (h = ''$2b$10$'' @ s)),
      sql_integer = (\<lambda>s. if s = ''1'' then Some 1 else if s = ''2'' then Some 2 else None)\<rparr>"

definition demo_io :: io where
  "demo_io = \<lparr>clock = 1700000000, db_fault = (\<lambda>k. False)\<rparr>"

definition alice :: user_row where
  "alice = \<lparr>u_id = 1, u_name = ''Alice'', u_email = ''a@x.com'',
            u_password_hash = ''$2b$10$pw1'', u_role = ''driver'', u_created_at = 1699990000\<rparr>"

definition bob :: user_row where
  "bob = \<lparr>u_id = 2, u_name = ''Bob'', u_email = ''b@x.com'',
          u_password_hash = ''$2b$10$pw2'', u_role = ''driver'', u_created_at = 1699990001\<rparr>"

definition alice_row :: submission_row where
  "alice_row =
     \<lparr>s_id = 1, s_user_id = 1, s_race_date = ''2024-01-01'', s_race_time = ''14:00'',
      s_series = ''GT3'', s_is_protest = 0, s_protest_text = None,
      s_replay_file = Some ''1699999999000-old.rpy'',
      s_telemetry_files = Some [''1699999999000-t1.csv'', ''1699999999001-t2.csv''],
      s_created_at = 1699999999\<rparr>"

definition bob_row :: submission_row where
  "bob_row =
     \<lparr>s_id = 2, s_user_id = 2, s_race_date = ''2024-02-02'', s_race_time = ''09:30'',
      s_series = ''GT4'', s_is_protest = 1, s_protest_text = Some ''blocked in turn 3'',
      s_replay_file = None, s_telemetry_files = Some [], s_created_at = 1699999998\<rparr>"

definition demo_state :: state where
  "demo_state =
     \<lparr>users = [alice, bob], submissions = [alice_row, bob_row], user_seq = 2, submission_seq = 2,
      files = {(replayDir, ''1699999999000-old.rpy''), (telemetryDir, ''1699999999000-t1.csv''),
               (telemetryDir, ''1699999999001-t2.csv'')},
      effects = []\<rparr>"

definition demo_body :: body where
  "demo_body =
     \<lparr>b_name = None, b_email = None, b_password = None, b_admin_code = None,
      b_race_date = Some ''2024-03-03'', b_race_time = Some ''16:00'', b_series = Some ''GT3'',
      b_is_protest = None, b_protest_text = None\<rparr>"

definition demo_replay_part :: part where
  "demo_replay_part =
     \<lparr>p_fieldname = ''replay'', p_originalname = ''lap 1.rpy'', p_now = 1700000000123\<rparr>"

definition demo_telemetry_parts :: "part list" where
  "demo_telemetry_parts =
     [\<lparr>p_fieldname = ''telemetry'', p_originalname = ''a.csv'', p_now = 1700000000200\<rparr>,
      \<lparr>p_fieldname = ''telemetry'', p_originalname = ''b.csv'', p_now = 1700000000201\<rparr>]"

definition colliding_part :: part where
  "colliding_part =
     \<lparr>p_fieldname = ''telemetry'', p_originalname = ''t1.csv'', p_now = 1699999999000\<rparr>"

definition carol_body :: body where
  "carol_body =
     \<lparr>b_name = Some ''Carol'', b_email = Some ''c@x.com'', b_password = Some ''pw3'',
      b_admin_code = Some ''s3cret'', b_race_date = None, b_race_time = None, b_series = None,
      b_is_protest = None, b_protest_text = None\<rparr>"

definition failing_io :: io where
  "failing_io = \<lparr>clock = 1700000000, db_fault = (\<lambda>k. True)\<rparr>"

definition alice_login :: body where
  "alice_login =
     \<lparr>b_name = None, b_email = Some ''a@x.com'', b_password = Some ''pw1'',
      b_admin_code = None, b_race_date = None, b_race_time = None, b_series = None,
      b_is_protest = None, b_protest_text = None\<rparr>"


section \<open>Properties of the file intake\<close>

lemma in_class_digit_char:
  assumes "d < 10"
  shows "in_class (digit_char d)"
proof -
  have "d \<in> {0, 1, 2, 3, 4, 5, 6, 7, 8, 9}"
    using assms by auto
  then show ?thesis
    by (auto simp: in_class_def digit_char_def)
qed

lemma in_class_decimal: "c \<in> set (decimal n) \<Longrightarrow> in_class c"
proof (induction n arbitrary: c rule: decimal.induct)
  case (1 n)
  show ?case
  proof (cases "n < 10")
    case True
    with "1.prems" show ?thesis
      by (simp add: decimal.simps [of n] in_class_digit_char)
  next
    case False
    with "1.prems" have "c \<in> set (decimal (n div 10)) \<or> c = digit_char (n mod 10)"
      by (auto simp: decimal.simps [of n])
    then show ?thesis
    proof
      assume "c \<in> set (decimal (n div 10))"
      with False "1.IH" show ?thesis by simp
    next
      assume "c = digit_char (n mod 10)"
      then show ?thesis by (simp add: in_class_digit_char)
    qed
  qed
qed

lemma decimal_not_Nil: "decimal n \<noteq> []"
  by (subst decimal.simps) simp

lemma in_class_replace_unsafe: "c \<in> set (replace_unsafe s) \<Longrightarrow> in_class c"
  by (auto simp: replace_unsafe_def in_class_def)

lemma in_class_filename: "c \<in> set (filename now originalname) \<Longrightarrow> in_class c"
  by (auto simp: filename_def in_class_decimal in_class_replace_unsafe)
     (simp add: in_class_def)

lemma slash_not_in_class: "\<not> in_class CHR ''/''"
  by (simp add: in_class_def)

lemma backslash_not_in_class: "\<not> in_class (CHR 0x5C)"
  by (simp add: in_class_def)

lemma hyphen_in_filename: "CHR ''-'' \<in> set (filename now originalname)"
  by (simp add: filename_def)

section \<open>Effects of the file intake and of the file replacement\<close>

lemma foldl_store_part_tables:
  "users (foldl store_part st parts) = users st \<and>
   submissions (foldl store_part st parts) = submissions st \<and>
   user_seq (foldl store_part st parts) = user_seq st \<and>
   submission_seq (foldl store_part st parts) = submission_seq st"
  by (induction parts arbitrary: st) (simp_all add: store_part_def Let_def)

lemma foldl_store_part_files:
  "files (foldl store_part st parts) =
     files st \<union> (\<lambda>p. (destination (p_fieldname p), filename (p_now p) (p_originalname p))) ` set parts"
  by (induction parts arbitrary: st) (auto simp: store_part_def Let_def)

lemma foldl_store_part_effects:
  "effects (foldl store_part st parts) =
     effects st @ map (\<lambda>p. Wrote (destination (p_fieldname p)) (filename (p_now p) (p_originalname p))) parts"
  by (induction parts arbitrary: st) (simp_all add: store_part_def Let_def)

lemma unlink_if_exists_tables:
  "users (unlink_if_exists d st f) = users st \<and>
   submissions (unlink_if_exists d st f) = submissions st \<and>
   user_seq (unlink_if_exists d st f) = user_seq st \<and>
   submission_seq (unlink_if_exists d st f) = submission_seq st"
  by (simp add: unlink_if_exists_def)

lemma unlink_if_exists_files: "files (unlink_if_exists d st f) = files st - {(d, f)}"
  by (auto simp: unlink_if_exists_def)

lemma foldl_unlink_tables:
  "users (foldl (unlink_if_exists d) st fs) = users st \<and>
   submissions (foldl (unlink_if_exists d) st fs) = submissions st \<and>
   user_seq (foldl (unlink_if_exists d) st fs) = user_seq st \<and>
   submission_seq (foldl (unlink_if_exists d) st fs) = submission_seq st"
  by (induction fs arbitrary: st) (simp_all add: unlink_if_exists_tables)

lemma foldl_unlink_files:
  "files (foldl (unlink_if_exists d) st fs) = files st - {d} \<times> set fs"
  by (induction fs arbitrary: st) (auto simp: unlink_if_exists_files)

lemma unlink_if_exists_effects:
  "\<exists>es. effects (unlink_if_exists d st f) = effects st @ es \<and> set es \<subseteq> {Unlinked d f}"
  by (simp add: unlink_if_exists_def)

lemma foldl_unlink_effects:
  "\<exists>es. effects (foldl (unlink_if_exists d) st fs) = effects st @ es \<and> set es \<subseteq> Unlinked d ` set fs"
proof (induction fs arbitrary: st)
  case Nil
  then show ?case by simp
next
  case (Cons f fs)
  obtain e1 where e1: "effects (unlink_if_exists d st f) = effects st @ e1" "set e1 \<subseteq> {Unlinked d f}"
    using unlink_if_exists_effects by blast
  obtain e2 where e2: "effects (foldl (unlink_if_exists d) (unlink_if_exists d st f) fs)
      = effects (unlink_if_exists d st f) @ e2" "set e2 \<subseteq> Unlinked d ` set fs"
    using Cons.IH by blast
  have "effects (foldl (unlink_if_exists d) st (f # fs)) = effects st @ (e1 @ e2)"
    using e1 e2 by simp
  moreover have "set (e1 @ e2) \<subseteq> Unlinked d ` set (f # fs)"
    using e1 e2 by auto
  ultimately show ?case by blast
qed


lemma upload_fields_Some:
  assumes "upload_fields parts st = Some (fls, st1)"
  shows "fls = \<lparr>f_replay = stored_names ''replay'' parts, f_telemetry = stored_names ''telemetry'' parts\<rparr>"
    and "st1 = foldl store_part st parts"
    and "length (stored_names ''replay'' parts) \<le> 1"
    and "length (stored_names ''telemetry'' parts) \<le> 5"
  using assms by (auto simp: upload_fields_def stored_names_def split: if_splits)

lemma find_map_update:
  assumes "\<And>r. P (g r) = P r"
  shows "find P (map (\<lambda>r. if P r then g r else r) xs) = map_option g (find P xs)"
  using assms by (induction xs) auto

lemma replace_replay_fst:
  "fst (replace_replay fls old st) = (case f_replay fls of [] \<Rightarrow> old | f # _ \<Rightarrow> Some f)"
  by (simp add: replace_replay_def split: list.splits)

lemma replace_replay_tables:
  "users (snd (replace_replay fls old st)) = users st \<and>
   submissions (snd (replace_replay fls old st)) = submissions st \<and>
   user_seq (snd (replace_replay fls old st)) = user_seq st \<and>
   submission_seq (snd (replace_replay fls old st)) = submission_seq st"
  by (simp add: replace_replay_def unlink_if_exists_tables split: list.splits)

lemma replace_replay_files:
  "files (snd (replace_replay fls old st)) =
     (if f_replay fls \<noteq> [] \<and> truthy old then files st - {(replayDir, text_of old)} else files st)"
  by (simp add: replace_replay_def unlink_if_exists_files split: list.splits)

lemma replace_replay_effects:
  "effects (snd (replace_replay fls old st)) =
     (if f_replay fls \<noteq> [] \<and> truthy old \<and> (replayDir, text_of old) \<in> files st
      then effects st @ [Unlinked replayDir (text_of old)] else effects st)"
  by (simp add: replace_replay_def unlink_if_exists_def split: list.splits)

lemma replace_telemetry_fst:
  "fst (replace_telemetry fls old st) = (if f_telemetry fls \<noteq> [] then f_telemetry fls else old)"
  by (simp add: replace_telemetry_def)

lemma replace_telemetry_tables:
  "users (snd (replace_telemetry fls old st)) = users st \<and>
   submissions (snd (replace_telemetry fls old st)) = submissions st \<and>
   user_seq (snd (replace_telemetry fls old st)) = user_seq st \<and>
   submission_seq (snd (replace_telemetry fls old st)) = submission_seq st"
  by (simp add: replace_telemetry_def foldl_unlink_tables)

lemma replace_telemetry_files:
  "files (snd (replace_telemetry fls old st)) =
     (if f_telemetry fls \<noteq> [] then files st - {telemetryDir} \<times> set old else files st)"
  by (simp add: replace_telemetry_def foldl_unlink_files)

lemma replace_telemetry_effects:
  "\<exists>es. effects (snd (replace_telemetry fls old st)) = effects st @ es
        \<and> set es \<subseteq> Unlinked telemetryDir ` set old \<and> (f_telemetry fls = [] \<longrightarrow> es = [])"
proof (cases "f_telemetry fls = []")
  case True
  then show ?thesis by (simp add: replace_telemetry_def)
next
  case False
  then show ?thesis
    using foldl_unlink_effects [of telemetryDir st old] by (simp add: replace_telemetry_def)
qed

lemma edit_handler_accepted:
  assumes "\<not> db_fault io 0" and "\<not> db_fault io 1"
    and "select_submission E (JStr sid) (property user ''id'') st = Some ex"
    and "truthy (b_race_date b)" and "truthy (b_race_time b)" and "truthy (b_series b)"
  shows "edit_handler E io sid b fls user st =
     (Redirect ''/dashboard'',
      (snd (replace_telemetry fls (telemetry_of ex) (snd (replace_replay fls (s_replay_file ex) st))))
        \<lparr>submissions :=
           map (\<lambda>r. if owned_by E (JStr sid) (property user ''id'') r
                    then r\<lparr>s_race_date := text_of (b_race_date b),
                           s_race_time := text_of (b_race_time b),
                           s_series := text_of (b_series b),
                           s_is_protest := (if truthy (b_is_protest b) then 1 else 0),
                           s_protest_text := or_null (b_protest_text b),
                           s_replay_file := fst (replace_replay fls (s_replay_file ex) st),
                           s_telemetry_files := Some (fst (replace_telemetry fls (telemetry_of ex)
                               (snd (replace_replay fls (s_replay_file ex) st))))\<rparr>
                    else r)
               (submissions st),
         effects := effects (snd (replace_telemetry fls (telemetry_of ex)
                       (snd (replace_replay fls (s_replay_file ex) st)))) @ [Ran UPDATE_submissions]\<rparr>)"
  using assms
  by (simp add: edit_handler_def get_def run_def update_submission_def Let_def
      split_beta replace_telemetry_tables replace_replay_tables)


lemma post_edit_unfold:
  assumes "upload_fields parts st = Some (fls, st1)"
  shows "post_edit E io sid b parts (Some user) st =
           edit_handler E io sid b
             \<lparr>f_replay = stored_names ''replay'' parts, f_telemetry = stored_names ''telemetry'' parts\<rparr>
             user (foldl store_part st parts)"
  using assms upload_fields_Some(1,2) [OF assms] by (simp add: post_edit_def)

section \<open>An accepted edit\<close>

lemma post_edit_accepted:
  assumes up: "upload_fields parts st = Some (fls, st1)"
    and nf: "\<not> db_fault io 0" "\<not> db_fault io 1"
    and sel: "select_submission E (JStr sid) (property user ''id'') st = Some ex"
    and ok: "truthy (b_race_date b)" "truthy (b_race_time b)" "truthy (b_series b)"
  shows "fst (post_edit E io sid b parts (Some user) st) = Redirect ''/dashboard''"
    and "submissions (snd (post_edit E io sid b parts (Some user) st)) =
           map (\<lambda>r. if owned_by E (JStr sid) (property user ''id'') r
                    then r\<lparr>s_race_date := text_of (b_race_date b),
                           s_race_time := text_of (b_race_time b),
                           s_series := text_of (b_series b),
                           s_is_protest := (if truthy (b_is_protest b) then 1 else 0),
                           s_protest_text := or_null (b_protest_text b),
                           s_replay_file := (case stored_names ''replay'' parts of
                                               [] \<Rightarrow> s_replay_file ex | f # _ \<Rightarrow> Some f),
                           s_telemetry_files :=
                             Some (if stored_names ''telemetry'' parts \<noteq> []
                                   then stored_names ''telemetry'' parts else telemetry_of ex)\<rparr>
                    else r)
               (submissions st)"
    and "files (snd (post_edit E io sid b parts (Some user) st)) =
           (let intake = files (foldl store_part st parts);
                kept = (if stored_names ''replay'' parts \<noteq> [] \<and> truthy (s_replay_file ex)
                        then intake - {(replayDir, text_of (s_replay_file ex))} else intake)
            in if stored_names ''telemetry'' parts \<noteq> []
               then kept - {telemetryDir} \<times> set (telemetry_of ex) else kept)"
    and "users (snd (post_edit E io sid b parts (Some user) st)) = users st"
proof -
  let ?fls = "\<lparr>f_replay = stored_names ''replay'' parts, f_telemetry = stored_names ''telemetry'' parts\<rparr>"
  let ?st1 = "foldl store_part st parts"
  have sel1: "select_submission E (JStr sid) (property user ''id'') ?st1 = Some ex"
    using sel by (simp add: select_submission_def foldl_store_part_tables)
  note eq = post_edit_unfold [OF up, of E io sid b user]
    edit_handler_accepted [OF nf sel1 ok, of ?fls]
  show "fst (post_edit E io sid b parts (Some user) st) = Redirect ''/dashboard''"
    by (simp add: eq)
  show "submissions (snd (post_edit E io sid b parts (Some user) st)) =
           map (\<lambda>r. if owned_by E (JStr sid) (property user ''id'') r
                    then r\<lparr>s_race_date := text_of (b_race_date b),
                           s_race_time := text_of (b_race_time b),
                           s_series := text_of (b_series b),
                           s_is_protest := (if truthy (b_is_protest b) then 1 else 0),
                           s_protest_text := or_null (b_protest_text b),
                           s_replay_file := (case stored_names ''replay'' parts of
                                               [] \<Rightarrow> s_replay_file ex | f # _ \<Rightarrow> Some f),
                           s_telemetry_files :=
                             Some (if stored_names ''telemetry'' parts \<noteq> []
                                   then stored_names ''telemetry'' parts else telemetry_of ex)\<rparr>
                    else r)
               (submissions st)"
    by (simp add: eq replace_replay_fst replace_telemetry_fst foldl_store_part_tables)
  show "files (snd (post_edit E io sid b parts (Some user) st)) =
           (let intake = files (foldl store_part st parts);
                kept = (if stored_names ''replay'' parts \<noteq> [] \<and> truthy (s_replay_file ex)
                        then intake - {(replayDir, text_of (s_replay_file ex))} else intake)
            in if stored_names ''telemetry'' parts \<noteq> []
               then kept - {telemetryDir} \<times> set (telemetry_of ex) else kept)"
    by (simp add: eq replace_replay_files replace_telemetry_files Let_def)
  show "users (snd (post_edit E io sid b parts (Some user) st)) = users st"
    by (simp add: eq replace_replay_tables replace_telemetry_tables foldl_store_part_tables)
qed

lemma owned_by_edited:
  "owned_by E i u (r\<lparr>s_race_date := a, s_race_time := b, s_series := c, s_is_protest := d,
       s_protest_text := e, s_replay_file := f, s_telemetry_files := g\<rparr>) = owned_by E i u r"
  by (simp add: owned_by_def)

lemma select_after_edit:
  assumes up: "upload_fields parts st = Some (fls, st1)"
    and nf: "\<not> db_fault io 0" "\<not> db_fault io 1"
    and sel: "select_submission E (JStr sid) (property user ''id'') st = Some ex"
    and ok: "truthy (b_race_date b)" "truthy (b_race_time b)" "truthy (b_series b)"
  shows "select_submission E (JStr sid) (property user ''id'')
           (snd (post_edit E io sid b parts (Some user) st)) =
         Some (ex\<lparr>s_race_date := text_of (b_race_date b),
                   s_race_time := text_of (b_race_time b),
                   s_series := text_of (b_series b),
                   s_is_protest := (if truthy (b_is_protest b) then 1 else 0),
                   s_protest_text := or_null (b_protest_text b),
                   s_replay_file := (case stored_names ''replay'' parts of
                                       [] \<Rightarrow> s_replay_file ex | f # _ \<Rightarrow> Some f),
                   s_telemetry_files :=
                     Some (if stored_names ''telemetry'' parts \<noteq> []
                           then stored_names ''telemetry'' parts else telemetry_of ex)\<rparr>)"
proof -
  have "find (owned_by E (JStr sid) (property user ''id'')) (submissions st) = Some ex"
    using sel by (simp add: select_submission_def)
  then show ?thesis
    unfolding select_submission_def post_edit_accepted(2) [OF up nf sel ok]
    by (subst find_map_update) (simp_all add: owned_by_edited)
qed

section \<open>Every outcome of an edit request\<close>




lemma edit_handler_not_accepted:
  assumes "db_fault io 0 \<or> db_fault io 1
           \<or> select_submission E (JStr sid) (property user ''id'') st = None
           \<or> \<not> truthy (b_race_date b) \<or> \<not> truthy (b_race_time b) \<or> \<not> truthy (b_series b)"
  shows "submissions (snd (edit_handler E io sid b fls user st)) = submissions st"
    and "users (snd (edit_handler E io sid b fls user st)) = users st"
  using assms
  by (auto simp: edit_handler_def get_def run_def Let_def split_beta
      replace_replay_tables replace_telemetry_tables split: option.splits)



lemma post_edit_effects:
  assumes up: "upload_fields parts st = Some (fls, st1)"
    and nf: "\<not> db_fault io 0" "\<not> db_fault io 1"
    and sel: "select_submission E (JStr sid) (property user ''id'') st = Some ex"
    and ok: "truthy (b_race_date b)" "truthy (b_race_time b)" "truthy (b_series b)"
  shows "\<exists>es. effects (snd (post_edit E io sid b parts (Some user) st)) =
           effects (foldl store_part st parts)
           @ (if stored_names ''replay'' parts \<noteq> [] \<and> truthy (s_replay_file ex)
                 \<and> (replayDir, text_of (s_replay_file ex)) \<in> files (foldl store_part st parts)
              then [Unlinked replayDir (text_of (s_replay_file ex))] else [])
           @ es @ [Ran UPDATE_submissions]
         \<and> set es \<subseteq> Unlinked telemetryDir ` set (telemetry_of ex)
         \<and> (stored_names ''telemetry'' parts = [] \<longrightarrow> es = [])"
proof -
  let ?fls = "\<lparr>f_replay = stored_names ''replay'' parts, f_telemetry = stored_names ''telemetry'' parts\<rparr>"
  let ?st1 = "foldl store_part st parts"
  let ?st2 = "snd (replace_replay ?fls (s_replay_file ex) ?st1)"
  have sel1: "select_submission E (JStr sid) (property user ''id'') ?st1 = Some ex"
    using sel by (simp add: select_submission_def foldl_store_part_tables)
  obtain es where es: "effects (snd (replace_telemetry ?fls (telemetry_of ex) ?st2)) = effects ?st2 @ es"
      "set es \<subseteq> Unlinked telemetryDir ` set (telemetry_of ex)" "f_telemetry ?fls = [] \<longrightarrow> es = []"
    using replace_telemetry_effects [of ?fls "telemetry_of ex" ?st2] by blast
  have "effects (snd (post_edit E io sid b parts (Some user) st)) =
          effects (snd (replace_telemetry ?fls (telemetry_of ex) ?st2)) @ [Ran UPDATE_submissions]"
    by (simp add: post_edit_unfold [OF up] edit_handler_accepted [OF nf sel1 ok])
  with es show ?thesis
    by (simp add: replace_replay_effects)
qed

lemma post_edit_rows:
  "\<exists>g. submissions (snd (post_edit E io sid b parts sess st)) =
          map (\<lambda>r. if (case sess of None \<Rightarrow> False
                                   | Some user \<Rightarrow> owned_by E (JStr sid) (property user ''id'') r)
                    then g r else r) (submissions st)
       \<and> (\<forall>r. s_id (g r) = s_id r \<and> s_user_id (g r) = s_user_id r
               \<and> s_created_at (g r) = s_created_at r)"
proof (cases sess)
  case None
  then have "submissions (snd (post_edit E io sid b parts sess st)) = map (\<lambda>r. r) (submissions st)"
    by (simp add: post_edit_def)
  then show ?thesis using None by (intro exI [of _ "\<lambda>r. r"]) simp
next
  case (Some user)
  show ?thesis
  proof (cases "upload_fields parts st")
    case None
    then have "submissions (snd (post_edit E io sid b parts sess st)) = submissions st"
      using Some by (simp add: post_edit_def)
    then show ?thesis by (intro exI [of _ "\<lambda>r. r"]) (simp add: map_idI)
  next
    case (Some a)
    then obtain fls st1 where up: "upload_fields parts st = Some (fls, st1)"
      by (cases a) simp
    let ?fls = "\<lparr>f_replay = stored_names ''replay'' parts, f_telemetry = stored_names ''telemetry'' parts\<rparr>"
    let ?st1 = "foldl store_part st parts"
    have unf: "post_edit E io sid b parts sess st = edit_handler E io sid b ?fls user ?st1"
      using post_edit_unfold [OF up] \<open>sess = Some user\<close> by simp
    show ?thesis
    proof (cases "db_fault io 0 \<or> db_fault io 1
           \<or> select_submission E (JStr sid) (property user ''id'') st = None
           \<or> \<not> truthy (b_race_date b) \<or> \<not> truthy (b_race_time b) \<or> \<not> truthy (b_series b)")
      case True
      then have "db_fault io 0 \<or> db_fault io 1
           \<or> select_submission E (JStr sid) (property user ''id'') ?st1 = None
           \<or> \<not> truthy (b_race_date b) \<or> \<not> truthy (b_race_time b) \<or> \<not> truthy (b_series b)"
        by (simp add: select_submission_def foldl_store_part_tables)
      from edit_handler_not_accepted(1) [OF this]
      have "submissions (snd (post_edit E io sid b parts sess st)) = submissions st"
        by (simp add: unf foldl_store_part_tables)
      then show ?thesis by (intro exI [of _ "\<lambda>r. r"]) (simp add: map_idI)
    next
      case False
      then obtain ex where sel: "select_submission E (JStr sid) (property user ''id'') st = Some ex"
        by auto
      from False have nf: "\<not> db_fault io 0" "\<not> db_fault io 1"
        and ok: "truthy (b_race_date b)" "truthy (b_race_time b)" "truthy (b_series b)"
        by auto
      show ?thesis
        unfolding \<open>sess = Some user\<close> post_edit_accepted(2) [OF up nf sel ok]
        by (rule exI [of _ "\<lambda>r. r\<lparr>s_race_date := text_of (b_race_date b),
                           s_race_time := text_of (b_race_time b),
                           s_series := text_of (b_series b),
                           s_is_protest := (if truthy (b_is_protest b) then 1 else 0),
                           s_protest_text := or_null (b_protest_text b),
                           s_replay_file := (case stored_names ''replay'' parts of
                                               [] \<Rightarrow> s_replay_file ex | f # _ \<Rightarrow> Some f),
                           s_telemetry_files :=
                             Some (if stored_names ''telemetry'' parts \<noteq> []
                                   then stored_names ''telemetry'' parts else telemetry_of ex)\<rparr>"])
           simp
    qed
  qed
qed

section \<open>File intake: the generated file name (C9)\<close>

lemma in_class_iff:
  "in_class c \<longleftrightarrow>
     c \<in> set ''abcdefghijklmnopqrstuvwxyzABCDEFGHIJKLMNOPQRSTUVWXYZ0123456789_.-''"
  by (cases c) (simp add: in_class_def)

lemma stored_names_generated:
  assumes "f \<in> set (stored_names field parts)"
  shows "(\<exists>p \<in> set parts. f = filename (p_now p) (p_originalname p))
         \<and> (\<forall>c \<in> set f. in_class c) \<and> CHR ''/'' \<notin> set f"
proof -
  from assms obtain p where p: "p \<in> set parts" "f = filename (p_now p) (p_originalname p)"
    by (auto simp: stored_names_def)
  moreover have "\<forall>c \<in> set f. in_class c"
    unfolding p(2) using in_class_filename by blast
  moreover from this have "CHR ''/'' \<notin> set f"
    using slash_not_in_class by blast
  ultimately show ?thesis by blast
qed

text \<open>
  C9. The name under which an uploaded file is stored is the decimal rendering of
  \<open>Date.now()\<close>, taken when the file is named, joined by a hyphen with the original name
  in which every code unit outside \<open>[A-Za-z0-9_.-]\<close> is replaced by an underscore.
  Hence the name contains neither \<open>/\<close> nor \<open>\\<close>, and it is neither \<open>.\<close> nor \<open>..\<close>:
  joined to the directory of its kind, it names a file of that directory.
\<close>

theorem filename_timestamp_hyphen_safe_name:
  "filename now originalname =
       decimal now @ ''-'' @ map (\<lambda>c. if in_class c then c else CHR ''_'') originalname
   \<and> CHR ''/'' \<notin> set (filename now originalname)
   \<and> CHR 0x5C \<notin> set (filename now originalname)
   \<and> filename now originalname \<noteq> ''.'' \<and> filename now originalname \<noteq> ''..''"
proof -
  have "CHR ''/'' \<notin> set (filename now originalname)"
    using in_class_filename slash_not_in_class by blast
  moreover have "CHR 0x5C \<notin> set (filename now originalname)"
    using in_class_filename backslash_not_in_class by blast
  moreover have "filename now originalname \<noteq> ''.''" "filename now originalname \<noteq> ''..''"
    using hyphen_in_filename [of now originalname] by auto
  ultimately show ?thesis
    by (simp add: filename_def replace_unsafe_def)
qed

theorem filename_timestamp_hyphen_safe_name_witness:
  "filename 1700000000123 ''../../etc/pass wd.rpy'' = ''1700000000123-.._.._etc_pass_wd.rpy''
   \<and> CHR ''/'' \<notin> set (filename 1700000000123 ''../../etc/pass wd.rpy'')"
  using filename_timestamp_hyphen_safe_name [of 1700000000123 "''../../etc/pass wd.rpy''"]
  by (simp add: decimal.simps digit_char_def in_class_def)

section \<open>Editing a submission of another user (C1)\<close>




section \<open>A successful edit keeps the owner and the creation time (C10)\<close>

lemma post_edit_columns_kept:
  "map s_id (submissions (snd (post_edit E io sid b parts sess st))) = map s_id (submissions st)
   \<and> map s_user_id (submissions (snd (post_edit E io sid b parts sess st)))
        = map s_user_id (submissions st)
   \<and> map s_created_at (submissions (snd (post_edit E io sid b parts sess st)))
        = map s_created_at (submissions st)"
proof -
  obtain g where g: "submissions (snd (post_edit E io sid b parts sess st)) =
          map (\<lambda>r. if (case sess of None \<Rightarrow> False
                                   | Some user \<Rightarrow> owned_by E (JStr sid) (property user ''id'') r)
                    then g r else r) (submissions st)"
    and keep: "\<And>r. s_id (g r) = s_id r \<and> s_user_id (g r) = s_user_id r
               \<and> s_created_at (g r) = s_created_at r"
    using post_edit_rows [of E io sid b parts sess st] by blast
  show ?thesis
    unfolding g by (simp add: keep o_def if_distrib [of s_id] if_distrib [of s_user_id]
        if_distrib [of s_created_at] cong: if_cong)
qed

text \<open>
  C10. A successful edit (the intake accepted the files, the store answered, the session
  user owns the row \<open>ex\<close> with the requested id, the required fields are filled) is
  answered by the redirect to the dashboard, and the row read back is \<open>ex\<close> with exactly
  the seven columns \<open>race_date\<close>, \<open>race_time\<close>, \<open>series\<close>, \<open>is_protest\<close>,
  \<open>protest_text\<close>, \<open>replay_file\<close> and \<open>telemetry_files\<close> rewritten: its \<open>id\<close>,
  \<open>user_id\<close> and \<open>created_at\<close> are those of \<open>ex\<close>. No row of the table changes its
  \<open>id\<close>, \<open>user_id\<close> or \<open>created_at\<close>.
\<close>

theorem edit_keeps_owner_and_creation_time:
  assumes up: "upload_fields parts st \<noteq> None"
    and nf: "\<not> db_fault io 0" "\<not> db_fault io 1"
    and sel: "select_submission E (JStr sid) (property user ''id'') st = Some ex"
    and ok: "truthy (b_race_date b)" "truthy (b_race_time b)" "truthy (b_series b)"
  shows "fst (post_edit E io sid b parts (Some user) st) = Redirect ''/dashboard''
    \<and> (\<exists>replayPath telemetryFiles.
          select_submission E (JStr sid) (property user ''id'')
             (snd (post_edit E io sid b parts (Some user) st)) =
          Some (ex\<lparr>s_race_date := text_of (b_race_date b),
                   s_race_time := text_of (b_race_time b),
                   s_series := text_of (b_series b),
                   s_is_protest := (if truthy (b_is_protest b) then 1 else 0),
                   s_protest_text := or_null (b_protest_text b),
                   s_replay_file := replayPath,
                   s_telemetry_files := Some telemetryFiles\<rparr>))
    \<and> map_option s_user_id (select_submission E (JStr sid) (property user ''id'')
             (snd (post_edit E io sid b parts (Some user) st))) = Some (s_user_id ex)
    \<and> map_option s_created_at (select_submission E (JStr sid) (property user ''id'')
             (snd (post_edit E io sid b parts (Some user) st))) = Some (s_created_at ex)
    \<and> map s_user_id (submissions (snd (post_edit E io sid b parts (Some user) st)))
         = map s_user_id (submissions st)
    \<and> map s_created_at (submissions (snd (post_edit E io sid b parts (Some user) st)))
         = map s_created_at (submissions st)"
proof -
  obtain fls st1 where up': "upload_fields parts st = Some (fls, st1)"
    using up by auto
  note after = select_after_edit [OF up' nf sel ok]
  have "fst (post_edit E io sid b parts (Some user) st) = Redirect ''/dashboard''"
    by (rule post_edit_accepted(1) [OF up' nf sel ok])
  moreover have "\<exists>replayPath telemetryFiles.
          select_submission E (JStr sid) (property user ''id'')
             (snd (post_edit E io sid b parts (Some user) st)) =
          Some (ex\<lparr>s_race_date := text_of (b_race_date b),
                   s_race_time := text_of (b_race_time b),
                   s_series := text_of (b_series b),
                   s_is_protest := (if truthy (b_is_protest b) then 1 else 0),
                   s_protest_text := or_null (b_protest_text b),
                   s_replay_file := replayPath,
                   s_telemetry_files := Some telemetryFiles\<rparr>)"
    unfolding after by blast
  moreover have "map_option s_user_id (select_submission E (JStr sid) (property user ''id'')
             (snd (post_edit E io sid b parts (Some user) st))) = Some (s_user_id ex)"
    unfolding after by simp
  moreover have "map_option s_created_at (select_submission E (JStr sid) (property user ''id'')
             (snd (post_edit E io sid b parts (Some user) st))) = Some (s_created_at ex)"
    unfolding after by simp
  ultimately show ?thesis
    using post_edit_columns_kept [of E io sid b parts "Some user" st] by simp
qed

lemma demo_accepted:
  "\<not> db_fault demo_io 0" "\<not> db_fault demo_io 1"
  "select_submission demo_env (JStr ''1'') (property (session_of alice) ''id'') demo_state
     = Some alice_row"
  "truthy (b_race_date demo_body)" "truthy (b_race_time demo_body)" "truthy (b_series demo_body)"
  by (simp_all add: demo_io_def select_submission_def demo_state_def owned_by_def sql_int_eq_def
      demo_env_def alice_row_def bob_row_def property_def session_of_def alice_def truthy_def
      demo_body_def)

theorem edit_keeps_owner_and_creation_time_witness:
  "upload_fields [] demo_state \<noteq> None \<and> \<not> db_fault demo_io 0 \<and> \<not> db_fault demo_io 1
   \<and> select_submission demo_env (JStr ''1'') (property (session_of alice) ''id'') demo_state
        = Some alice_row
   \<and> truthy (b_race_date demo_body) \<and> truthy (b_race_time demo_body) \<and> truthy (b_series demo_body)
   \<and> fst (post_edit demo_env demo_io ''1'' demo_body [] (Some (session_of alice)) demo_state)
        = Redirect ''/dashboard''
   \<and> map s_user_id (submissions
         (snd (post_edit demo_env demo_io ''1'' demo_body [] (Some (session_of alice)) demo_state)))
        = [1, 2]
   \<and> map s_created_at (submissions
         (snd (post_edit demo_env demo_io ''1'' demo_body [] (Some (session_of alice)) demo_state)))
        = [1699999999, 1699999998]"
proof -
  have up: "upload_fields [] demo_state \<noteq> None"
    by (simp add: upload_fields_def)
  have cols: "map s_user_id (submissions demo_state) = [1, 2]"
    "map s_created_at (submissions demo_state) = [1699999999, 1699999998]"
    by (simp_all add: demo_state_def alice_row_def bob_row_def)
  from edit_keeps_owner_and_creation_time [OF up demo_accepted]
    up demo_accepted cols
  show ?thesis by simp
qed

section \<open>Replacing the replay file (C3)\<close>

text \<open>
  C3. In a successful edit with a replay upload stored as \<open>f\<close>, the row read back has
  \<open>replay_file = f\<close>. If the row referred to a replay file \<open>old\<close> before, no file \<open>old\<close>
  is left in the replay directory; and if that file was on the disk, the effects of the
  request are: the uploaded files written, then \<open>old\<close> unlinked, then unlinks of telemetry
  files only, then the UPDATE that records \<open>f\<close>.
\<close>

theorem edit_replaces_replay:
  assumes up: "upload_fields parts st \<noteq> None"
    and nf: "\<not> db_fault io 0" "\<not> db_fault io 1"
    and sel: "select_submission E (JStr sid) (property user ''id'') st = Some ex"
    and ok: "truthy (b_race_date b)" "truthy (b_race_time b)" "truthy (b_series b)"
    and new: "stored_names ''replay'' parts = f # fs"
  shows "map_option s_replay_file (select_submission E (JStr sid) (property user ''id'')
             (snd (post_edit E io sid b parts (Some user) st))) = Some (Some f)
    \<and> (\<forall>old. s_replay_file ex = Some old \<and> old \<noteq> [] \<longrightarrow>
          (replayDir, old) \<notin> files (snd (post_edit E io sid b parts (Some user) st)))
    \<and> (\<forall>old. s_replay_file ex = Some old \<and> old \<noteq> [] \<and> (replayDir, old) \<in> files st \<longrightarrow>
          (\<exists>es. effects (snd (post_edit E io sid b parts (Some user) st)) =
                  effects st
                  @ map (\<lambda>p. Wrote (destination (p_fieldname p))
                                  (filename (p_now p) (p_originalname p))) parts
                  @ [Unlinked replayDir old] @ es @ [Ran UPDATE_submissions]
               \<and> set es \<subseteq> Unlinked telemetryDir ` set (telemetry_of ex)))"
proof -
  let ?st' = "snd (post_edit E io sid b parts (Some user) st)"
  obtain fls st1 where up': "upload_fields parts st = Some (fls, st1)"
    using up by auto
  have "map_option s_replay_file (select_submission E (JStr sid) (property user ''id'') ?st')
          = Some (Some f)"
    unfolding select_after_edit [OF up' nf sel ok] by (simp add: new)
  moreover have "(replayDir, old) \<notin> files ?st'" if "s_replay_file ex = Some old \<and> old \<noteq> []" for old
    unfolding post_edit_accepted(3) [OF up' nf sel ok]
    using that by (simp add: new truthy_def text_of_def Let_def)
  moreover have "\<exists>es. effects ?st' =
                  effects st
                  @ map (\<lambda>p. Wrote (destination (p_fieldname p))
                                  (filename (p_now p) (p_originalname p))) parts
                  @ [Unlinked replayDir old] @ es @ [Ran UPDATE_submissions]
               \<and> set es \<subseteq> Unlinked telemetryDir ` set (telemetry_of ex)"
    if "s_replay_file ex = Some old \<and> old \<noteq> [] \<and> (replayDir, old) \<in> files st" for old
  proof -
    have "(replayDir, old) \<in> files (foldl store_part st parts)"
      using that by (simp add: foldl_store_part_files)
    with that post_edit_effects [OF up' nf sel ok] show ?thesis
      by (auto simp: new truthy_def text_of_def foldl_store_part_effects)
  qed
  ultimately show ?thesis by blast
qed

lemma demo_replay_names:
  "stored_names ''replay'' [demo_replay_part] = [''1700000000123-lap_1.rpy'']"
  "stored_names ''telemetry'' [demo_replay_part] = []"
  by (simp_all add: stored_names_def demo_replay_part_def filename_def decimal.simps digit_char_def
      replace_unsafe_def in_class_def)

theorem edit_replaces_replay_witness:
  "upload_fields [demo_replay_part] demo_state \<noteq> None
   \<and> \<not> db_fault demo_io 0 \<and> \<not> db_fault demo_io 1
   \<and> select_submission demo_env (JStr ''1'') (property (session_of alice) ''id'') demo_state
        = Some alice_row
   \<and> truthy (b_race_date demo_body) \<and> truthy (b_race_time demo_body) \<and> truthy (b_series demo_body)
   \<and> stored_names ''replay'' [demo_replay_part] = [''1700000000123-lap_1.rpy'']
   \<and> s_replay_file alice_row = Some ''1699999999000-old.rpy''
   \<and> (replayDir, ''1699999999000-old.rpy'') \<in> files demo_state
   \<and> map_option s_replay_file
        (select_submission demo_env (JStr ''1'') (property (session_of alice) ''id'')
           (snd (post_edit demo_env demo_io ''1'' demo_body [demo_replay_part]
                   (Some (session_of alice)) demo_state)))
        = Some (Some ''1700000000123-lap_1.rpy'')
   \<and> (replayDir, ''1699999999000-old.rpy'')
        \<notin> files (snd (post_edit demo_env demo_io ''1'' demo_body [demo_replay_part]
                         (Some (session_of alice)) demo_state))"
proof -
  have up: "upload_fields [demo_replay_part] demo_state \<noteq> None"
    by (simp add: upload_fields_def demo_replay_part_def)
  have old: "s_replay_file alice_row = Some ''1699999999000-old.rpy''"
    "(replayDir, ''1699999999000-old.rpy'') \<in> files demo_state"
    by (simp_all add: alice_row_def demo_state_def)
  from edit_replaces_replay [OF up demo_accepted demo_replay_names(1)]
    up demo_accepted demo_replay_names(1) old
  show ?thesis by simp
qed

section \<open>No upload of a kind: the references of that kind stay (C4)\<close>

lemma stored_names_Nil: "stored_names field parts = [] \<longleftrightarrow> (\<forall>p \<in> set parts. p_fieldname p \<noteq> field)"
  by (auto simp: stored_names_def filter_empty_conv)

lemma upload_fields_fieldnames:
  assumes "upload_fields parts st \<noteq> None" and "p \<in> set parts"
  shows "p_fieldname p = ''replay'' \<or> p_fieldname p = ''telemetry''"
  using assms by (auto simp: upload_fields_def list_all_iff split: if_splits)

lemma intake_keeps_replays:
  assumes "upload_fields parts st \<noteq> None" and "stored_names ''replay'' parts = []"
  shows "(replayDir, f) \<in> files (foldl store_part st parts) \<longleftrightarrow> (replayDir, f) \<in> files st"
  using assms upload_fields_fieldnames [OF assms(1)]
  by (auto simp: foldl_store_part_files stored_names_Nil destination_def)

lemma intake_keeps_telemetry:
  assumes "upload_fields parts st \<noteq> None" and "stored_names ''telemetry'' parts = []"
  shows "(telemetryDir, f) \<in> files (foldl store_part st parts) \<longleftrightarrow> (telemetryDir, f) \<in> files st"
  using assms upload_fields_fieldnames [OF assms(1)]
  by (auto simp: foldl_store_part_files stored_names_Nil destination_def)

text \<open>
  C4. In a successful edit without a replay upload, the row read back has the
  \<open>replay_file\<close> it had, and the replay directory holds the files it held. Without a
  telemetry upload, the row read back refers to the telemetry files it referred to, in the
  same order (the column itself is the same when it was not NULL; NULL, which the server
  never writes, is read as the empty list and written back as such), and the telemetry
  directory holds the files it held.
\<close>

theorem edit_without_upload_keeps_references:
  assumes up: "upload_fields parts st \<noteq> None"
    and nf: "\<not> db_fault io 0" "\<not> db_fault io 1"
    and sel: "select_submission E (JStr sid) (property user ''id'') st = Some ex"
    and ok: "truthy (b_race_date b)" "truthy (b_race_time b)" "truthy (b_series b)"
  shows "(stored_names ''replay'' parts = [] \<longrightarrow>
            map_option s_replay_file (select_submission E (JStr sid) (property user ''id'')
               (snd (post_edit E io sid b parts (Some user) st))) = Some (s_replay_file ex)
          \<and> {f. (replayDir, f) \<in> files (snd (post_edit E io sid b parts (Some user) st))}
              = {f. (replayDir, f) \<in> files st})
    \<and> (stored_names ''telemetry'' parts = [] \<longrightarrow>
            map_option telemetry_of (select_submission E (JStr sid) (property user ''id'')
               (snd (post_edit E io sid b parts (Some user) st))) = Some (telemetry_of ex)
          \<and> (s_telemetry_files ex \<noteq> None \<longrightarrow>
                map_option s_telemetry_files (select_submission E (JStr sid) (property user ''id'')
                  (snd (post_edit E io sid b parts (Some user) st))) = Some (s_telemetry_files ex))
          \<and> {f. (telemetryDir, f) \<in> files (snd (post_edit E io sid b parts (Some user) st))}
              = {f. (telemetryDir, f) \<in> files st})"
proof -
  let ?st' = "snd (post_edit E io sid b parts (Some user) st)"
  obtain fls st1 where up': "upload_fields parts st = Some (fls, st1)"
    using up by auto
  note after = select_after_edit [OF up' nf sel ok]
  note fls = post_edit_accepted(3) [OF up' nf sel ok]
  have replay: "map_option s_replay_file (select_submission E (JStr sid) (property user ''id'') ?st')
                  = Some (s_replay_file ex)
          \<and> {f. (replayDir, f) \<in> files ?st'} = {f. (replayDir, f) \<in> files st}"
    if no: "stored_names ''replay'' parts = []"
  proof
    show "map_option s_replay_file (select_submission E (JStr sid) (property user ''id'') ?st')
                  = Some (s_replay_file ex)"
      unfolding after by (simp add: no)
    show "{f. (replayDir, f) \<in> files ?st'} = {f. (replayDir, f) \<in> files st}"
      unfolding fls by (simp add: no Let_def intake_keeps_replays [OF up no])
  qed
  have telemetry: "map_option telemetry_of (select_submission E (JStr sid) (property user ''id'') ?st')
                  = Some (telemetry_of ex)
          \<and> (s_telemetry_files ex \<noteq> None \<longrightarrow>
                map_option s_telemetry_files (select_submission E (JStr sid) (property user ''id'') ?st')
                  = Some (s_telemetry_files ex))
          \<and> {f. (telemetryDir, f) \<in> files ?st'} = {f. (telemetryDir, f) \<in> files st}"
    if no: "stored_names ''telemetry'' parts = []"
  proof (intro conjI)
    show "map_option telemetry_of (select_submission E (JStr sid) (property user ''id'') ?st')
                  = Some (telemetry_of ex)"
      unfolding after by (simp add: no telemetry_of_def)
    show "s_telemetry_files ex \<noteq> None \<longrightarrow>
                map_option s_telemetry_files (select_submission E (JStr sid) (property user ''id'') ?st')
                  = Some (s_telemetry_files ex)"
      unfolding after by (auto simp: no telemetry_of_def)
    show "{f. (telemetryDir, f) \<in> files ?st'} = {f. (telemetryDir, f) \<in> files st}"
      unfolding fls by (simp add: no Let_def intake_keeps_telemetry [OF up no])
  qed
  from replay telemetry show ?thesis by blast
qed

theorem edit_without_upload_keeps_references_witness:
  "upload_fields [demo_replay_part] demo_state \<noteq> None
   \<and> \<not> db_fault demo_io 0 \<and> \<not> db_fault demo_io 1
   \<and> select_submission demo_env (JStr ''1'') (property (session_of alice) ''id'') demo_state
        = Some alice_row
   \<and> truthy (b_race_date demo_body) \<and> truthy (b_race_time demo_body) \<and> truthy (b_series demo_body)
   \<and> stored_names ''telemetry'' [demo_replay_part] = []
   \<and> map_option s_telemetry_files
        (select_submission demo_env (JStr ''1'') (property (session_of alice) ''id'')
           (snd (post_edit demo_env demo_io ''1'' demo_body [demo_replay_part]
                   (Some (session_of alice)) demo_state)))
        = Some (Some [''1699999999000-t1.csv'', ''1699999999001-t2.csv''])
   \<and> {f. (telemetryDir, f) \<in> files (snd (post_edit demo_env demo_io ''1'' demo_body [demo_replay_part]
                         (Some (session_of alice)) demo_state))}
        = {''1699999999000-t1.csv'', ''1699999999001-t2.csv''}
   \<and> upload_fields [] demo_state \<noteq> None \<and> stored_names ''replay'' [] = []
   \<and> map_option s_replay_file
        (select_submission demo_env (JStr ''1'') (property (session_of alice) ''id'')
           (snd (post_edit demo_env demo_io ''1'' demo_body [] (Some (session_of alice)) demo_state)))
        = Some (Some ''1699999999000-old.rpy'')
   \<and> {f. (replayDir, f) \<in> files (snd (post_edit demo_env demo_io ''1'' demo_body []
                         (Some (session_of alice)) demo_state))}
        = {''1699999999000-old.rpy''}"
proof -
  have up: "upload_fields [demo_replay_part] demo_state \<noteq> None" "upload_fields [] demo_state \<noteq> None"
    by (simp_all add: upload_fields_def demo_replay_part_def)
  have no: "stored_names ''replay'' [] = []"
    by (simp add: stored_names_def)
  have old: "s_telemetry_files alice_row = Some [''1699999999000-t1.csv'', ''1699999999001-t2.csv'']"
    "s_replay_file alice_row = Some ''1699999999000-old.rpy''"
    "{f. (telemetryDir, f) \<in> files demo_state} = {''1699999999000-t1.csv'', ''1699999999001-t2.csv''}"
    "{f. (replayDir, f) \<in> files demo_state} = {''1699999999000-old.rpy''}"
    by (auto simp: alice_row_def demo_state_def)
  from edit_without_upload_keeps_references [OF up(1) demo_accepted]
    edit_without_upload_keeps_references [OF up(2) demo_accepted]
    up demo_accepted demo_replay_names(2) no old
  show ?thesis by simp
qed

section \<open>Replacing the telemetry files (C2)\<close>

text \<open>
  C2, as the code has it. In a successful edit with one or more telemetry uploads, no file
  named by a previous telemetry reference is left in the telemetry directory, and the row
  read back refers to exactly the generated names of the uploaded telemetry files, in upload
  order. No previous name remains referenced provided no generated name is equal to a
  previous one.
\<close>

theorem edit_replaces_telemetry:
  assumes up: "upload_fields parts st \<noteq> None"
    and nf: "\<not> db_fault io 0" "\<not> db_fault io 1"
    and sel: "select_submission E (JStr sid) (property user ''id'') st = Some ex"
    and ok: "truthy (b_race_date b)" "truthy (b_race_time b)" "truthy (b_series b)"
    and new: "stored_names ''telemetry'' parts \<noteq> []"
  shows "(\<forall>f \<in> set (telemetry_of ex).
            (telemetryDir, f) \<notin> files (snd (post_edit E io sid b parts (Some user) st)))
    \<and> map_option s_telemetry_files (select_submission E (JStr sid) (property user ''id'')
             (snd (post_edit E io sid b parts (Some user) st)))
         = Some (Some (map (\<lambda>p. filename (p_now p) (p_originalname p))
                          (filter (\<lambda>p. p_fieldname p = ''telemetry'') parts)))
    \<and> (set (telemetry_of ex) \<inter> set (stored_names ''telemetry'' parts) = {} \<longrightarrow>
          map_option (\<lambda>r. set (telemetry_of ex) \<inter> set (telemetry_of r))
             (select_submission E (JStr sid) (property user ''id'')
                (snd (post_edit E io sid b parts (Some user) st))) = Some {})"
proof -
  let ?st' = "snd (post_edit E io sid b parts (Some user) st)"
  obtain fls st1 where up': "upload_fields parts st = Some (fls, st1)"
    using up by auto
  note after = select_after_edit [OF up' nf sel ok]
  have "\<forall>f \<in> set (telemetry_of ex). (telemetryDir, f) \<notin> files ?st'"
    unfolding post_edit_accepted(3) [OF up' nf sel ok] using new by (simp add: Let_def)
  moreover have "map_option s_telemetry_files
        (select_submission E (JStr sid) (property user ''id'') ?st')
         = Some (Some (map (\<lambda>p. filename (p_now p) (p_originalname p))
                          (filter (\<lambda>p. p_fieldname p = ''telemetry'') parts)))"
    unfolding after using new by (simp add: stored_names_def)
  moreover have "map_option (\<lambda>r. set (telemetry_of ex) \<inter> set (telemetry_of r))
             (select_submission E (JStr sid) (property user ''id'') ?st') = Some {}"
    if "set (telemetry_of ex) \<inter> set (stored_names ''telemetry'' parts) = {}"
    unfolding after using new that by (simp add: telemetry_of_def)
  ultimately show ?thesis by blast
qed

lemma demo_telemetry_names:
  "stored_names ''telemetry'' demo_telemetry_parts = [''1700000000200-a.csv'', ''1700000000201-b.csv'']"
  by (simp add: stored_names_def demo_telemetry_parts_def filename_def decimal.simps digit_char_def
      replace_unsafe_def in_class_def)

theorem edit_replaces_telemetry_witness:
  "upload_fields demo_telemetry_parts demo_state \<noteq> None
   \<and> \<not> db_fault demo_io 0 \<and> \<not> db_fault demo_io 1
   \<and> select_submission demo_env (JStr ''1'') (property (session_of alice) ''id'') demo_state
        = Some alice_row
   \<and> truthy (b_race_date demo_body) \<and> truthy (b_race_time demo_body) \<and> truthy (b_series demo_body)
   \<and> stored_names ''telemetry'' demo_telemetry_parts = [''1700000000200-a.csv'', ''1700000000201-b.csv'']
   \<and> telemetry_of alice_row = [''1699999999000-t1.csv'', ''1699999999001-t2.csv'']
   \<and> (telemetryDir, ''1699999999000-t1.csv'')
        \<notin> files (snd (post_edit demo_env demo_io ''1'' demo_body demo_telemetry_parts
                         (Some (session_of alice)) demo_state))
   \<and> (telemetryDir, ''1699999999001-t2.csv'')
        \<notin> files (snd (post_edit demo_env demo_io ''1'' demo_body demo_telemetry_parts
                         (Some (session_of alice)) demo_state))
   \<and> map_option s_telemetry_files
        (select_submission demo_env (JStr ''1'') (property (session_of alice) ''id'')
           (snd (post_edit demo_env demo_io ''1'' demo_body demo_telemetry_parts
                   (Some (session_of alice)) demo_state)))
        = Some (Some [''1700000000200-a.csv'', ''1700000000201-b.csv''])
   \<and> map_option (\<lambda>r. set (telemetry_of alice_row) \<inter> set (telemetry_of r))
        (select_submission demo_env (JStr ''1'') (property (session_of alice) ''id'')
           (snd (post_edit demo_env demo_io ''1'' demo_body demo_telemetry_parts
                   (Some (session_of alice)) demo_state)))
        = Some {}"
proof -
  have up: "upload_fields demo_telemetry_parts demo_state \<noteq> None"
    by (simp add: upload_fields_def demo_telemetry_parts_def)
  have new: "stored_names ''telemetry'' demo_telemetry_parts \<noteq> []"
    by (simp add: demo_telemetry_names)
  have old: "telemetry_of alice_row = [''1699999999000-t1.csv'', ''1699999999001-t2.csv'']"
    by (simp add: telemetry_of_def alice_row_def)
  have names: "map (\<lambda>p. filename (p_now p) (p_originalname p))
                 (filter (\<lambda>p. p_fieldname p = ''telemetry'') demo_telemetry_parts)
               = [''1700000000200-a.csv'', ''1700000000201-b.csv'']"
    using demo_telemetry_names by (simp add: stored_names_def)
  from edit_replaces_telemetry [OF up demo_accepted new]
    up demo_accepted demo_telemetry_names old names
  show ?thesis by simp
qed

text \<open>
  The claim without the proviso fails when a generated name is equal to a previous one:
  Alice's row refers to \<open>1699999999000-t1.csv\<close>; she uploads \<open>t1.csv\<close> as telemetry and
  \<open>Date.now()\<close> is \<open>1699999999000\<close> when the storage names it. After the edit the row
  still refers to \<open>1699999999000-t1.csv\<close>, and no such file is left on the disk.
\<close>

theorem edit_replaces_telemetry_counterexample:
  "s_telemetry_files alice_row = Some [''1699999999000-t1.csv'', ''1699999999001-t2.csv'']
   \<and> stored_names ''telemetry'' [colliding_part] = [''1699999999000-t1.csv'']
   \<and> fst (post_edit demo_env demo_io ''1'' demo_body [colliding_part]
             (Some (session_of alice)) demo_state) = Redirect ''/dashboard''
   \<and> map s_telemetry_files
        (submissions (snd (post_edit demo_env demo_io ''1'' demo_body [colliding_part]
                             (Some (session_of alice)) demo_state)))
        = [Some [''1699999999000-t1.csv''], Some []]
   \<and> (telemetryDir, ''1699999999000-t1.csv'')
        \<notin> files (snd (post_edit demo_env demo_io ''1'' demo_body [colliding_part]
                         (Some (session_of alice)) demo_state))"
proof -
  have up: "upload_fields [colliding_part] demo_state
      = Some (\<lparr>f_replay = stored_names ''replay'' [colliding_part],
               f_telemetry = stored_names ''telemetry'' [colliding_part]\<rparr>,
              foldl store_part demo_state [colliding_part])"
    by (simp add: upload_fields_def colliding_part_def)
  have names: "stored_names ''telemetry'' [colliding_part] = [''1699999999000-t1.csv'']"
    "stored_names ''replay'' [colliding_part] = []"
    by (simp_all add: stored_names_def colliding_part_def filename_def decimal.simps digit_char_def
        replace_unsafe_def in_class_def)
  have old: "s_telemetry_files alice_row = Some [''1699999999000-t1.csv'', ''1699999999001-t2.csv'']"
    by (simp add: alice_row_def)
  have owned: "owned_by demo_env (JStr ''1'') (property (session_of alice) ''id'') alice_row"
    "\<not> owned_by demo_env (JStr ''1'') (property (session_of alice) ''id'') bob_row"
    by (simp_all add: owned_by_def sql_int_eq_def demo_env_def alice_row_def bob_row_def
        property_def session_of_def alice_def)
  have rows: "submissions demo_state = [alice_row, bob_row]"
    by (simp add: demo_state_def)
  have tel: "s_telemetry_files bob_row = Some []"
    by (simp add: bob_row_def)
  note acc = post_edit_accepted [OF up demo_accepted]
  show ?thesis
    by (simp add: acc names old owned rows tel telemetry_of_def Let_def)
qed

section \<open>Registration: the role (C5)\<close>

lemma admin_secret_not_Nil: "admin_secret E \<noteq> []"
  by (simp add: admin_secret_def truthy_def text_of_def split: option.splits)

lemma post_register_persists:
  assumes "truthy (b_name b)" and "truthy (b_email b)" and "truthy (b_password b)"
    and "\<not> db_fault io 0" and "text_of (b_email b) \<notin> set (map u_email (users st))"
  shows "post_register E io b st =
     (Redirect ''/login'',
      st\<lparr>users := users st @
             [\<lparr>u_id = Suc (user_seq st), u_name = text_of (b_name b), u_email = text_of (b_email b),
               u_password_hash = bcrypt_hash E (text_of (b_password b)),
               u_role = (if truthy (b_admin_code b) \<and> b_admin_code b = Some (admin_secret E)
                         then ''admin'' else ''driver''),
               u_created_at = clock io\<rparr>],
          user_seq := Suc (user_seq st),
          effects := effects st @ [Ran INSERT_users]\<rparr>)"
  using assms by (simp add: post_register_def run_def insert_user_def Let_def)

text \<open>
  C5. A registration with non-empty name, email and password that the store accepts (the
  email is not yet in the table and the INSERT is answered) appends one row to \<open>users\<close>. Its
  role is \<open>admin\<close> if and only if the admin code of the form is present, non-empty and equal
  to the configured secret \<open>process.env.ADMIN_CODE || 'admin123'\<close>; otherwise it is
  \<open>driver\<close>.
\<close>

theorem register_role:
  assumes "truthy (b_name b)" and "truthy (b_email b)" and "truthy (b_password b)"
    and "\<not> db_fault io 0" and "text_of (b_email b) \<notin> set (map u_email (users st))"
  shows "fst (post_register E io b st) = Redirect ''/login''
    \<and> (\<exists>u. users (snd (post_register E io b st)) = users st @ [u]
           \<and> u_name u = text_of (b_name b) \<and> u_email u = text_of (b_email b)
           \<and> (u_role u = ''admin'' \<longleftrightarrow>
                (\<exists>code. b_admin_code b = Some code \<and> code \<noteq> [] \<and> code = admin_secret E))
           \<and> (u_role u = ''admin'' \<or> u_role u = ''driver''))"
proof -
  have "truthy (b_admin_code b) \<and> b_admin_code b = Some (admin_secret E)
          \<longleftrightarrow> (\<exists>code. b_admin_code b = Some code \<and> code \<noteq> [] \<and> code = admin_secret E)"
    by (auto simp: truthy_def)
  then show ?thesis
    unfolding post_register_persists [OF assms] by simp
qed

theorem register_role_witness:
  "truthy (b_name carol_body) \<and> truthy (b_email carol_body) \<and> truthy (b_password carol_body)
   \<and> \<not> db_fault demo_io 0 \<and> text_of (b_email carol_body) \<notin> set (map u_email (users demo_state))
   \<and> b_admin_code carol_body = Some (admin_secret demo_env)
   \<and> fst (post_register demo_env demo_io carol_body demo_state) = Redirect ''/login''
   \<and> map u_role (users (snd (post_register demo_env demo_io carol_body demo_state)))
        = [''driver'', ''driver'', ''admin'']
   \<and> map u_role (users (snd (post_register demo_env demo_io
                                 (carol_body\<lparr>b_admin_code := Some ''guess''\<rparr>) demo_state)))
        = [''driver'', ''driver'', ''driver'']
   \<and> map u_role (users (snd (post_register demo_env demo_io
                                 (carol_body\<lparr>b_admin_code := None\<rparr>) demo_state)))
        = [''driver'', ''driver'', ''driver'']"
proof -
  have h: "truthy (b_name carol_body)" "truthy (b_email carol_body)" "truthy (b_password carol_body)"
    "\<not> db_fault demo_io 0" "text_of (b_email carol_body) \<notin> set (map u_email (users demo_state))"
    by (simp_all add: carol_body_def truthy_def text_of_def demo_io_def demo_state_def alice_def bob_def)
  have h': "truthy (b_name (carol_body\<lparr>b_admin_code := x\<rparr>))"
    "truthy (b_email (carol_body\<lparr>b_admin_code := x\<rparr>))"
    "truthy (b_password (carol_body\<lparr>b_admin_code := x\<rparr>))"
    "text_of (b_email (carol_body\<lparr>b_admin_code := x\<rparr>)) \<notin> set (map u_email (users demo_state))" for x
    using h by simp_all
  have code: "b_admin_code carol_body = Some (admin_secret demo_env)"
    "admin_secret demo_env = ''s3cret''"
    by (simp_all add: carol_body_def admin_secret_def demo_env_def truthy_def text_of_def)
  have roles: "map u_role (users demo_state) = [''driver'', ''driver'']"
    by (simp add: demo_state_def alice_def bob_def)
  note hg = h' [of "Some ''guess''"] and hn = h' [of None]
  from register_role [OF h, of demo_env]
    register_role [OF hg(1-3) h(4) hg(4), of demo_env]
    register_role [OF hn(1-3) h(4) hn(4), of demo_env]
    h code roles
  show ?thesis by auto
qed

section \<open>Registration: a duplicate email, and a store that fails (C6)\<close>

lemma register_duplicate_email:
  assumes "truthy (b_name b)" and "truthy (b_email b)" and "truthy (b_password b)"
    and "text_of (b_email b) \<in> set (map u_email (users st))"
  shows "post_register E io b st = (Render ''register'' (only_error ''Email already in use.''), st)"
  using assms by (simp add: post_register_def run_def insert_user_def Let_def)

lemma register_conflict_iff:
  assumes "truthy (b_name b)" and "truthy (b_email b)" and "truthy (b_password b)"
  shows "fst (post_register E io b st) = Render ''register'' (only_error ''Email already in use.'')
           \<longleftrightarrow> db_fault io 0 \<or> text_of (b_email b) \<in> set (map u_email (users st))"
  using assms by (simp add: post_register_def run_def insert_user_def Let_def)

lemma register_never_alters_a_row:
  "\<exists>new. users (snd (post_register E io b st)) = users st @ new"
  by (simp add: post_register_def run_def insert_user_def Let_def)

text \<open>
  C6. A second registration with an email of the table (and non-empty name and password)
  is answered with \<open>Email already in use.\<close> and changes nothing
  (\<open>register_duplicate_email\<close>), and no registration alters a row
  (\<open>register_never_alters_a_row\<close>). But the handler gives the same answer to every
  rejection of the INSERT (\<open>register_conflict_iff\<close>): Carol registers with an email that
  is not in the table while the database cannot run the statement, and is told that her
  email is already in use.
\<close>

theorem register_store_failure_reported_as_conflict:
  "truthy (b_name carol_body) \<and> truthy (b_email carol_body) \<and> truthy (b_password carol_body)
   \<and> text_of (b_email carol_body) = ''c@x.com''
   \<and> map u_email (users demo_state) = [''a@x.com'', ''b@x.com'']
   \<and> run (db_fault failing_io 0)
        (insert_user (clock failing_io) ''Carol'' ''c@x.com'' (bcrypt_hash demo_env ''pw3'') ''admin'')
        demo_state = Inl SQLITE_FAILURE
   \<and> post_register demo_env failing_io carol_body demo_state
        = (Render ''register'' (only_error ''Email already in use.''), demo_state)"
  by (simp add: post_register_def run_def failing_io_def carol_body_def truthy_def text_of_def
      demo_state_def alice_def bob_def Let_def)

theorem register_store_failure_reported_as_conflict_witness:
  "fst (post_register demo_env failing_io carol_body demo_state)
     = Render ''register'' (only_error ''Email already in use.'')
   \<and> ''c@x.com'' \<notin> set (map u_email (users demo_state))"
  using register_store_failure_reported_as_conflict by simp

section \<open>Login (C7)\<close>

lemma post_login_no_user:
  assumes "\<not> db_fault io 0" and "select_user_by_email (b_email b) st = None"
  shows "post_login E io b sess st = (Render ''login'' (only_error ''Invalid credentials.''), sess)"
  using assms by (simp add: post_login_def get_def)

lemma post_login_wrong_password:
  assumes "\<not> db_fault io 0" and "select_user_by_email (b_email b) st = Some u"
    and "bcrypt_compare E (b_password b) (u_password_hash u) = Some False"
  shows "post_login E io b sess st = (Render ''login'' (only_error ''Invalid credentials.''), sess)"
  using assms by (simp add: post_login_def get_def)

lemma post_login_success:
  assumes "\<not> db_fault io 0" and "select_user_by_email (b_email b) st = Some u"
    and "bcrypt_compare E (b_password b) (u_password_hash u) = Some True"
  shows "post_login E io b sess st = (Redirect ''/dashboard'', Some (session_of u))"
  using assms by (simp add: post_login_def get_def)

text \<open>
  When \<open>bcrypt.compare\<close> answers. Take two login attempts that the store answers: in the
  first no user has the email, in the second a user has it and the hash comparison answers
  false. Both end with the same response, the login view with \<open>Invalid credentials.\<close>,
  and both leave the session as it was. When a user has the email and the comparison
  answers true, the request is redirected to the dashboard and the session holds that
  user's id and role.
\<close>

lemma login_outcomes:
  assumes "\<not> db_fault io 0" and "\<not> db_fault io' 0"
  shows "(select_user_by_email (b_email b) st = None
           \<and> select_user_by_email (b_email b') st' = Some u'
           \<and> bcrypt_compare E (b_password b') (u_password_hash u') = Some False \<longrightarrow>
            post_login E io b sess st = (Render ''login'' (only_error ''Invalid credentials.''), sess)
          \<and> post_login E io' b' sess' st' = (Render ''login'' (only_error ''Invalid credentials.''), sess')
          \<and> fst (post_login E io b sess st) = fst (post_login E io' b' sess' st'))
       \<and> (select_user_by_email (b_email b) st = Some u
           \<and> bcrypt_compare E (b_password b) (u_password_hash u) = Some True \<longrightarrow>
            post_login E io b sess st = (Redirect ''/dashboard'', Some (session_of u))
          \<and> property (session_of u) ''id'' = JNum (u_id u)
          \<and> property (session_of u) ''role'' = JStr (u_role u))"
  using assms
  by (simp add: post_login_no_user post_login_wrong_password post_login_success
      property_def session_of_def)

lemma demo_select_users:
  "select_user_by_email (Some ''a@x.com'') demo_state = Some alice"
  "select_user_by_email (Some ''nobody@x.com'') demo_state = None"
  by (simp_all add: select_user_by_email_def demo_state_def alice_def bob_def)

lemma login_outcomes_witness:
  "\<not> db_fault demo_io 0
   \<and> select_user_by_email (b_email (alice_login\<lparr>b_email := Some ''nobody@x.com''\<rparr>)) demo_state = None
   \<and> select_user_by_email (b_email (alice_login\<lparr>b_password := Some ''wrong''\<rparr>)) demo_state
        = Some alice
   \<and> bcrypt_compare demo_env (b_password (alice_login\<lparr>b_password := Some ''wrong''\<rparr>))
        (u_password_hash alice) = Some False
   \<and> post_login demo_env demo_io (alice_login\<lparr>b_email := Some ''nobody@x.com''\<rparr>) None demo_state
        = (Render ''login'' (only_error ''Invalid credentials.''), None)
   \<and> post_login demo_env demo_io (alice_login\<lparr>b_password := Some ''wrong''\<rparr>) None demo_state
        = (Render ''login'' (only_error ''Invalid credentials.''), None)
   \<and> select_user_by_email (b_email alice_login) demo_state = Some alice
   \<and> bcrypt_compare demo_env (b_password alice_login) (u_password_hash alice) = Some True
   \<and> post_login demo_env demo_io alice_login None demo_state
        = (Redirect ''/dashboard'',
           Some [(''id'', JNum 1), (''name'', JStr ''Alice''), (''role'', JStr ''driver''),
                 (''email'', JStr ''a@x.com'')])"
proof -
  have nf: "\<not> db_fault demo_io 0"
    by (simp add: demo_io_def)
  have sel: "select_user_by_email (b_email (alice_login\<lparr>b_email := Some ''nobody@x.com''\<rparr>)) demo_state = None"
    "select_user_by_email (b_email (alice_login\<lparr>b_password := Some ''wrong''\<rparr>)) demo_state = Some alice"
    "select_user_by_email (b_email alice_login) demo_state = Some alice"
    by (simp_all add: alice_login_def demo_select_users)
  have cmp: "bcrypt_compare demo_env (b_password (alice_login\<lparr>b_password := Some ''wrong''\<rparr>))
        (u_password_hash alice) = Some False"
    "bcrypt_compare demo_env (b_password alice_login) (u_password_hash alice) = Some True"
    by (simp_all add: demo_env_def alice_login_def alice_def)
  have sess: "session_of alice = [(''id'', JNum 1), (''name'', JStr ''Alice''),
       (''role'', JStr ''driver''), (''email'', JStr ''a@x.com'')]"
    by (simp add: session_of_def alice_def)
  from login_outcomes [OF nf nf, of "alice_login\<lparr>b_email := Some ''nobody@x.com''\<rparr>" demo_state
      "alice_login\<lparr>b_password := Some ''wrong''\<rparr>" demo_state alice demo_env None None]
    login_outcomes [OF nf nf, of alice_login demo_state alice_login demo_state alice demo_env
      None None alice]
    nf sel cmp sess
  show ?thesis by simp
qed

lemma post_login_compare_rejects:
  assumes "\<not> db_fault io 0" and "select_user_by_email (b_email b) st = Some u"
    and "bcrypt_compare E (b_password b) (u_password_hash u) = None"
  shows "post_login E io b sess st = (Rejected Bcrypt, sess)"
  using assms by (simp add: post_login_def get_def)

lemma login_tells_known_email_when_compare_rejects:
  assumes "\<not> db_fault io 0" and "\<not> db_fault io' 0"
    and "select_user_by_email (b_email b) st = None"
    and "select_user_by_email (b_email b') st' = Some u'"
    and "bcrypt_compare E (b_password b') (u_password_hash u') = None"
  shows "fst (post_login E io b sess st) \<noteq> fst (post_login E io' b' sess' st')"
  using assms by (simp add: post_login_no_user post_login_compare_rejects)

text \<open>
  C7. The handler hands \<open>req.body.password\<close> to \<open>bcrypt.compare\<close> as it is, and only
  when a user has the email; nothing catches what \<open>bcrypt.compare\<close> throws. The library
  rejects a password that is \<open>undefined\<close> (``data and hash arguments required''). So a
  login form without a password field is answered with the login view and
  \<open>Invalid credentials.\<close> when no user has the email, and with no response at all, the
  rejection being uncaught, when a user has it: the two outcomes differ, and an observer
  learns that the email exists. Here Alice's email and an unknown email are tried without
  a password.
\<close>

theorem login_without_password_reveals_known_email:
  "b_password (alice_login\<lparr>b_password := None\<rparr>) = None
   \<and> select_user_by_email (b_email (alice_login\<lparr>b_password := None\<rparr>)) demo_state = Some alice
   \<and> bcrypt_compare demo_env None (u_password_hash alice) = None
   \<and> post_login demo_env demo_io (alice_login\<lparr>b_password := None\<rparr>) None demo_state
        = (Rejected Bcrypt, None)
   \<and> select_user_by_email
        (b_email (alice_login\<lparr>b_email := Some ''nobody@x.com'', b_password := None\<rparr>)) demo_state
        = None
   \<and> post_login demo_env demo_io
        (alice_login\<lparr>b_email := Some ''nobody@x.com'', b_password := None\<rparr>) None demo_state
        = (Render ''login'' (only_error ''Invalid credentials.''), None)"
proof -
  have nf: "\<not> db_fault demo_io 0"
    by (simp add: demo_io_def)
  have known: "select_user_by_email (b_email (alice_login\<lparr>b_password := None\<rparr>)) demo_state
      = Some alice"
    by (simp add: alice_login_def demo_select_users)
  have unknown: "select_user_by_email
        (b_email (alice_login\<lparr>b_email := Some ''nobody@x.com'', b_password := None\<rparr>)) demo_state
        = None"
    by (simp add: demo_select_users)
  have rejects: "bcrypt_compare demo_env None (u_password_hash alice) = None"
    by (simp add: demo_env_def)
  have rejects': "bcrypt_compare demo_env (b_password (alice_login\<lparr>b_password := None\<rparr>))
      (u_password_hash alice) = None"
    using rejects by simp
  from post_login_compare_rejects [OF nf known rejects', of None]
    post_login_no_user [OF nf unknown, of demo_env None]
    known unknown rejects
  show ?thesis by simp
qed

theorem login_without_password_reveals_known_email_witness:
  "fst (post_login demo_env demo_io (alice_login\<lparr>b_password := None\<rparr>) None demo_state)
     = Rejected Bcrypt
   \<and> fst (post_login demo_env demo_io
        (alice_login\<lparr>b_email := Some ''nobody@x.com'', b_password := None\<rparr>) None demo_state)
     = Render ''login'' (only_error ''Invalid credentials.'')
   \<and> Rejected Bcrypt \<noteq> Render ''login'' (only_error ''Invalid credentials.'')"
  using login_without_password_reveals_known_email by simp

section \<open>What the session holds (C8)\<close>










end
